theory Spec2Isabelle
  imports Main "HOL-Library.AList"
begin

section \<open>JavaScript values, errors and promises\<close>

text \<open>
  The scalar values the plugin reads and writes. \<open>Undefined\<close> is also what reading a
  property that an object does not have yields.
\<close>

datatype jsval = Undefined | Null | Num int | Str string

text \<open>The test of \<^verbatim>\<open>if (post.feature_image)\<close>: JavaScript truthiness.\<close>

fun truthy :: "jsval \<Rightarrow> bool" where
  "truthy Undefined = False"
| "truthy Null = False"
| "truthy (Num n) = (n \<noteq> 0)"
| "truthy (Str s) = (s \<noteq> [])"

text \<open>
  \<open>TypeError\<close> is what reading a property of \<^verbatim>\<open>undefined\<close> throws, \<open>OwnerError\<close> is the
  host's refusal of a node that already carries \<^verbatim>\<open>internal.owner\<close>, and \<open>HostError\<close> is any
  error a host primitive or the CMS reports (network, cache, HTTP status).
\<close>

datatype err = TypeError | OwnerError | HostError string

text \<open>
  A promise that settles is its settlement and the logical time at which it settles.
  Time is counted by the host: every network or file operation takes the number of ticks
  the host says; synchronous code and promise reactions take none.
\<close>

datatype 'a settled = Fulfilled 'a | Rejected err

type_synonym 'a promise = "nat \<times> 'a settled"

section \<open>Data model\<close>

text \<open>
  A node as the host's node store sees it: \<^verbatim>\<open>id\<close>, \<^verbatim>\<open>internal.type\<close>, \<^verbatim>\<open>internal.owner\<close>,
  the \<^verbatim>\<open>fields\<close> object written by \<^verbatim>\<open>createNodeField\<close>, the link \<^verbatim>\<open>localFile___NODE\<close>
  (\<open>Undefined\<close> when the node has no such property) and the remaining properties.
\<close>

record node =
  node_id :: jsval
  internal_type :: string
  internal_owner :: "string option"
  node_fields :: "(string \<times> jsval) list"
  node_localFile___NODE :: jsval
  source_fields :: "(string \<times> jsval) list"

text \<open>A post or a page as the Content API returns it.\<close>

record ghost_record =
  rec_id :: jsval
  rec_feature_image :: jsval
  rec_rest :: "(string \<times> jsval) list"

text \<open>
  The same object while the plugin works on it: the callback adds the properties
  \<^verbatim>\<open>image\<close> and \<^verbatim>\<open>localFile___NODE\<close>. \<open>image = None\<close> is \<^verbatim>\<open>undefined\<close>.
\<close>

record post_obj =
  post_id :: jsval
  feature_image :: jsval
  image :: "node option"
  localFile___NODE :: jsval
  rest :: "(string \<times> jsval) list"

definition js_object :: "ghost_record \<Rightarrow> post_obj" where
  "js_object r =
     \<lparr>post_id = rec_id r, feature_image = rec_feature_image r, image = None,
      localFile___NODE = Undefined, rest = rec_rest r\<rparr>"

text \<open>
  A tag or an author. The browse call asks for \<^verbatim>\<open>include: 'count.posts'\<close>, so each record
  carries \<^verbatim>\<open>count.posts\<close>; \<^verbatim>\<open>postCount\<close> is the property the callback adds.
\<close>

record counted =
  counted_id :: jsval
  count_posts :: jsval
  postCount :: jsval
  counted_rest :: "(string \<times> jsval) list"

text \<open>The settings object; \<open>settings_id = Undefined\<close> when the CMS sends no \<^verbatim>\<open>id\<close>.\<close>

record settings =
  settings_id :: jsval
  settings_rest :: "(string \<times> jsval) list"

section \<open>The host\<close>

datatype resource = Posts | Pages | Tags | Authors | Settings

text \<open>
  What the plugin asks of the host and of the CMS, each request stamped with the time
  at which it happens.
\<close>

datatype event =
    Browse resource
  | CreateRemoteFileNode jsval jsval
  | CreateNodeField node string jsval
  | CreateNode node
  | DeleteNode node
  | Warn err

type_synonym trace = "(nat \<times> event) list"

text \<open>
  The client that \<^verbatim>\<open>ContentAPI.configure\<close> returns: for each resource, the promise its
  \<^verbatim>\<open>browse\<close> call returns.
\<close>

record api =
  browse_posts :: "ghost_record list promise"
  browse_pages :: "ghost_record list promise"
  browse_tags :: "counted list promise"
  browse_authors :: "counted list promise"
  browse_settings :: "settings promise"

text \<open>
  The host's side of one run. \<open>configure\<close> is the outcome of
  \<^verbatim>\<open>ContentAPI.configure(configOptions)\<close>; \<open>createRemoteFileNode url parent\<close> is how long the
  download takes and what it gives; \<open>createNodeField_throws\<close> says whether a call of
  \<^verbatim>\<open>createNodeField\<close> throws.
\<close>

record host =
  configure :: "err + api"
  createRemoteFileNode :: "jsval \<Rightarrow> jsval \<Rightarrow> nat \<times> (err + node)"
  createNodeField_throws :: "node \<Rightarrow> string \<Rightarrow> jsval \<Rightarrow> err option"

text \<open>
  \<^verbatim>\<open>createNodeField({node, name, value})\<close>: unless it throws, the host stores the value
  under the name in \<^verbatim>\<open>node.fields\<close>, on the node object it was given.
\<close>

definition with_field :: "string \<Rightarrow> jsval \<Rightarrow> node \<Rightarrow> node" where
  "with_field name v n = n\<lparr>node_fields := AList.update name v (node_fields n)\<rparr>"

definition createNodeField :: "host \<Rightarrow> node \<Rightarrow> string \<Rightarrow> jsval \<Rightarrow> err + node" where
  "createNodeField h n name v =
     (case createNodeField_throws h n name v of
        Some e \<Rightarrow> Inl e
      | None \<Rightarrow> Inr (with_field name v n))"

text \<open>
  \<^verbatim>\<open>createNode(node)\<close>: the host refuses a node that already has \<^verbatim>\<open>internal.owner\<close> (the
  error the comment in \<^verbatim>\<open>createTemporaryFakeNodes\<close> speaks of), and otherwise writes the
  plugin's name there, on the object it was given.
\<close>

definition plugin_name :: string where
  "plugin_name = ''gatsby-source-ghost''"

definition createNode :: "node \<Rightarrow> err + node" where
  "createNode n =
     (case internal_owner n of
        Some _ \<Rightarrow> Inl OwnerError
      | None \<Rightarrow> Inr (n\<lparr>internal_owner := Some plugin_name\<rparr>))"

section \<open>The node factories of ghost-nodes.js\<close>

text \<open>
  Modelled from the spec: \<^verbatim>\<open>PostNode\<close>, \<^verbatim>\<open>PageNode\<close>, \<^verbatim>\<open>TagNode\<close>, \<^verbatim>\<open>AuthorNode\<close> and
  \<^verbatim>\<open>SettingsNode\<close> come from \<^verbatim>\<open>./ghost-nodes\<close>, which is not among the sources. The spec's
  Record-to-Node Mapper gives a node whose identifier equals the record's identifier,
  a type tag, and all source fields, with the image link populated only when the record
  carries one. A fresh node has no owner and no \<^verbatim>\<open>fields\<close>.
\<close>

definition record_node :: "string \<Rightarrow> post_obj \<Rightarrow> node" where
  "record_node ty p =
     \<lparr>node_id = post_id p, internal_type = ty, internal_owner = None, node_fields = [],
      node_localFile___NODE = localFile___NODE p,
      source_fields = (''feature_image'', feature_image p) # rest p\<rparr>"

definition PostNode :: "post_obj \<Rightarrow> node" where
  "PostNode = record_node ''GhostPost''"

definition PageNode :: "post_obj \<Rightarrow> node" where
  "PageNode = record_node ''GhostPage''"

definition counted_node :: "string \<Rightarrow> counted \<Rightarrow> node" where
  "counted_node ty c =
     \<lparr>node_id = counted_id c, internal_type = ty, internal_owner = None, node_fields = [],
      node_localFile___NODE = Undefined,
      source_fields = (''postCount'', postCount c) # counted_rest c\<rparr>"

definition TagNode :: "counted \<Rightarrow> node" where
  "TagNode = counted_node ''GhostTag''"

definition AuthorNode :: "counted \<Rightarrow> node" where
  "AuthorNode = counted_node ''GhostAuthor''"

definition SettingsNode :: "settings \<Rightarrow> node" where
  "SettingsNode s =
     \<lparr>node_id = settings_id s, internal_type = ''GhostSettings'', internal_owner = None,
      node_fields = [], node_localFile___NODE = Undefined, source_fields = settings_rest s\<rparr>"

section \<open>downloadImageAndCreateFileNode\<close>

text \<open>
  The \<^verbatim>\<open>try\<close> block, started at time \<open>t\<close>: the requests it makes, the value of the
  variable \<^verbatim>\<open>fileNode\<close> when the block is left (\<open>None\<close> is \<^verbatim>\<open>undefined\<close>), and the error
  thrown, if any. The download settles at \<open>t\<close> plus the host's delay; the two
  \<^verbatim>\<open>createNodeField\<close> calls follow at once, each on the node object the call before left.
\<close>

definition try_block :: "host \<Rightarrow> nat \<Rightarrow> post_obj \<Rightarrow> trace \<times> node option \<times> err option" where
  "try_block h t r =
     (let url = feature_image r; ident = post_id r;
          t1 = t + fst (createRemoteFileNode h url ident);
          called = [(t, CreateRemoteFileNode url ident)]
      in case snd (createRemoteFileNode h url ident) of
           Inl e \<Rightarrow> (called, None, Some e)
         | Inr fileNode \<Rightarrow>
             (let first = [(t1, CreateNodeField fileNode ''originalPath'' url)]
              in case createNodeField h fileNode ''originalPath'' url of
                   Inl e \<Rightarrow> (called @ first, Some fileNode, Some e)
                 | Inr fileNode1 \<Rightarrow>
                     (let second = [(t1, CreateNodeField fileNode1 ''refId'' ident)]
                      in case createNodeField h fileNode1 ''refId'' ident of
                           Inl e \<Rightarrow> (called @ first @ second, Some fileNode1, Some e)
                         | Inr fileNode2 \<Rightarrow>
                             (called @ first @ second, Some fileNode2, None))))"

text \<open>
  The whole function: the \<^verbatim>\<open>catch\<close> clause warns, and \<^verbatim>\<open>return fileNode\<close> follows whether or
  not the block threw.
\<close>

definition downloadImageAndCreateFileNode ::
    "host \<Rightarrow> nat \<Rightarrow> post_obj \<Rightarrow> trace \<times> node option promise" where
  "downloadImageAndCreateFileNode h t r =
     (let t1 = t + fst (createRemoteFileNode h (feature_image r) (post_id r))
      in case try_block h t r of
           (evs, fileNode, thrown) \<Rightarrow>
             (evs @ (case thrown of Some e \<Rightarrow> [(t1, Warn e)] | None \<Rightarrow> []),
              (t1, Fulfilled fileNode)))"

section \<open>Promise combinators\<close>

text \<open>
  \<^verbatim>\<open>promise.then(callback)\<close> with a synchronous callback: a rejection passes through with
  its reason, a fulfilment runs the callback at that time. The callback gives the requests
  it made and the error it threw, if any.
\<close>

definition then_sync :: "'a promise \<Rightarrow> ('a \<Rightarrow> event list \<times> err option) \<Rightarrow> trace \<times> unit promise" where
  "then_sync p callback =
     (case p of
        (t, Rejected e) \<Rightarrow> ([], (t, Rejected e))
      | (t, Fulfilled v) \<Rightarrow>
          (case callback v of
             (evs, thrown) \<Rightarrow>
               (map (Pair t) evs,
                (t, case thrown of Some e \<Rightarrow> Rejected e | None \<Rightarrow> Fulfilled ()))))"

text \<open>
  The earliest rejection among the promises of an array; of two rejections at the same
  time the one earlier in the array counts.
\<close>

fun first_rejected :: "'a promise list \<Rightarrow> (nat \<times> err) option" where
  "first_rejected [] = None"
| "first_rejected ((t, Fulfilled v) # ps) = first_rejected ps"
| "first_rejected ((t, Rejected e) # ps) =
     (case first_rejected ps of
        None \<Rightarrow> Some (t, e)
      | Some (t', e') \<Rightarrow> if t' < t then Some (t', e') else Some (t, e))"

text \<open>
  \<^verbatim>\<open>Promise.all(array)\<close>, called at time \<open>now\<close>: it rejects with the reason of the first
  promise to reject, as soon as that one rejects, and fulfils once every promise of the
  array has fulfilled. It takes one argument.
\<close>

definition Promise_all :: "nat \<Rightarrow> 'a promise list \<Rightarrow> unit promise" where
  "Promise_all now ps =
     (case first_rejected ps of
        Some (t, e) \<Rightarrow> (max now t, Rejected e)
      | None \<Rightarrow> (fold max (map fst ps) now, Fulfilled ()))"

section \<open>createLiveGhostNodes\<close>

text \<open>
  \<^verbatim>\<open>array.forEach((x) => createNode(...))\<close>: the calls in order, up to the first that throws.
\<close>

fun forEach_createNode :: "node list \<Rightarrow> event list \<times> err option" where
  "forEach_createNode [] = ([], None)"
| "forEach_createNode (n # ns) =
     (case createNode n of
        Inl e \<Rightarrow> ([CreateNode n], Some e)
      | Inr _ \<Rightarrow>
          (case forEach_createNode ns of (evs, thrown) \<Rightarrow> (CreateNode n # evs, thrown)))"

text \<open>The callbacks of \<^verbatim>\<open>fetchTags\<close>, \<^verbatim>\<open>fetchAuthors\<close> and \<^verbatim>\<open>fetchSettings\<close>.\<close>

definition fetchTags_callback :: "counted list \<Rightarrow> event list \<times> err option" where
  "fetchTags_callback tags =
     forEach_createNode (map (\<lambda>tag. TagNode (tag\<lparr>postCount := count_posts tag\<rparr>)) tags)"

definition fetchAuthors_callback :: "counted list \<Rightarrow> event list \<times> err option" where
  "fetchAuthors_callback authors =
     forEach_createNode
       (map (\<lambda>author. AuthorNode (author\<lparr>postCount := count_posts author\<rparr>)) authors)"

definition fetchSettings_callback :: "settings \<Rightarrow> event list \<times> err option" where
  "fetchSettings_callback setting =
     (let setting1 = setting\<lparr>settings_id := Num 1\<rparr>;
          n = SettingsNode setting1
      in ([CreateNode n], case createNode n of Inl e \<Rightarrow> Some e | Inr _ \<Rightarrow> None))"

text \<open>
  \<^verbatim>\<open>return createNode(factory(record))\<close> at the end of a post's or page's callback, at time
  \<open>t\<close>, after the requests \<open>evs\<close>.
\<close>

definition return_createNode :: "nat \<Rightarrow> trace \<Rightarrow> node \<Rightarrow> trace \<times> unit promise" where
  "return_createNode t evs n =
     (evs @ [(t, CreateNode n)],
      (t, case createNode n of Inl e \<Rightarrow> Rejected e | Inr _ \<Rightarrow> Fulfilled ()))"

text \<open>
  The asynchronous callback mapped over \<^verbatim>\<open>posts\<close> (with \<open>PostNode\<close>) and over \<^verbatim>\<open>pages\<close>
  (with \<open>PageNode\<close>), started at time \<open>t\<close>. Reading \<^verbatim>\<open>post.image.id\<close> throws when
  \<^verbatim>\<open>post.image\<close> is \<^verbatim>\<open>undefined\<close>.
\<close>

definition record_callback ::
    "(post_obj \<Rightarrow> node) \<Rightarrow> host \<Rightarrow> nat \<Rightarrow> post_obj \<Rightarrow> trace \<times> unit promise" where
  "record_callback factory h t post =
     (if truthy (feature_image post) then
        (case downloadImageAndCreateFileNode h t post of
           (evs, (t1, Rejected e)) \<Rightarrow> (evs, (t1, Rejected e))
         | (evs, (t1, Fulfilled fileNode)) \<Rightarrow>
             (let post1 = post\<lparr>image := fileNode\<rparr>
              in case image post1 of
                   None \<Rightarrow> (evs, (t1, Rejected TypeError))
                 | Some img \<Rightarrow>
                     (let post2 = post1\<lparr>localFile___NODE := node_id img\<rparr>
                      in return_createNode t1 evs (factory post2))))
      else return_createNode t [] (factory post))"

text \<open>The variables \<^verbatim>\<open>posts\<close> and \<^verbatim>\<open>pages\<close>: assigned only when the browse call fulfils.\<close>

definition assigned :: "'a promise \<Rightarrow> 'a option" where
  "assigned p = (case snd p of Fulfilled v \<Rightarrow> Some v | Rejected _ \<Rightarrow> None)"

text \<open>
  One run: every request with its time (the list is grouped by task, the times give the
  order), and the promise the function returns.
\<close>

record run =
  events :: trace
  returned :: "unit promise"

definition all_resources :: "resource list" where
  "all_resources = [Posts, Pages, Tags, Authors, Settings]"

text \<open>
  The five browse calls, made at time 0, each with its \<^verbatim>\<open>then\<close>: the requests they lead to
  and the array \<^verbatim>\<open>[fetchPosts, fetchPages, fetchTags, fetchAuthors, fetchSettings]\<close>.
\<close>

definition fetches :: "api \<Rightarrow> trace \<times> unit promise list" where
  "fetches a =
     (let browses = map (\<lambda>r. (0, Browse r)) all_resources;
          fetchPosts = then_sync (browse_posts a) (\<lambda>ghostPosts. ([], None));
          fetchPages = then_sync (browse_pages a) (\<lambda>ghostPages. ([], None));
          fetchTags = then_sync (browse_tags a) fetchTags_callback;
          fetchAuthors = then_sync (browse_authors a) fetchAuthors_callback;
          fetchSettings = then_sync (browse_settings a) fetchSettings_callback
      in (browses @ fst fetchPosts @ fst fetchPages @ fst fetchTags @ fst fetchAuthors
            @ fst fetchSettings,
          [snd fetchPosts, snd fetchPages, snd fetchTags, snd fetchAuthors, snd fetchSettings]))"

text \<open>
  The callback of the outer \<^verbatim>\<open>Promise.all\<close>, run at time \<open>t\<close>. The inner \<^verbatim>\<open>Promise.all\<close> is
  called with two arguments, the array of the posts' promises and the array of the
  pages' promises; both arrays are built, so every callback starts, and the first array
  is what \<^verbatim>\<open>Promise.all\<close> waits for.
\<close>

definition create_records :: "host \<Rightarrow> nat \<Rightarrow> post_obj list \<Rightarrow> post_obj list \<Rightarrow> run" where
  "create_records h t posts pages =
     (let of_posts = map (record_callback PostNode h t) posts;
          of_pages = map (record_callback PageNode h t) pages
      in \<lparr>events = concat (map fst of_posts) @ concat (map fst of_pages),
          returned = Promise_all t (map snd of_posts)\<rparr>)"

definition createLiveGhostNodes :: "host \<Rightarrow> run" where
  "createLiveGhostNodes h =
     (case configure h of
        Inl e \<Rightarrow> \<lparr>events = [], returned = (0, Rejected e)\<rparr>
      | Inr a \<Rightarrow>
          (case Promise_all 0 (snd (fetches a)) of
             (t, Rejected e) \<Rightarrow> \<lparr>events = fst (fetches a), returned = (t, Rejected e)\<rparr>
           | (t, Fulfilled _) \<Rightarrow>
               (case (assigned (browse_posts a), assigned (browse_pages a)) of
                  (Some posts, Some pages) \<Rightarrow>
                    (let records = create_records h t (map js_object posts) (map js_object pages)
                     in records\<lparr>events := fst (fetches a) @ events records\<rparr>)
                | _ \<Rightarrow> \<lparr>events = fst (fetches a), returned = (t, Rejected TypeError)\<rparr>)))"

section \<open>createTemporaryFakeNodes\<close>

text \<open>
  What outlives a call: the module's array \<^verbatim>\<open>fakeNodes\<close> (its objects are changed in
  place), the handlers registered on the emitter for \<^verbatim>\<open>SET_SCHEMA\<close> (every call makes a
  new function \<^verbatim>\<open>onSchemaUpdate\<close>, told apart by a number), and the requests made of the
  host so far.
\<close>

record world =
  fakeNodes :: "node list"
  listeners :: "nat list"
  next_closure :: nat
  host_log :: "event list"

text \<open>
  The first \<^verbatim>\<open>forEach\<close>: each node loses \<^verbatim>\<open>internal.owner\<close> and is handed to \<^verbatim>\<open>createNode\<close>,
  which writes the owner on it again. The result is the array afterwards, the nodes as
  they were handed over, and the error that ended the loop, if any.
\<close>

fun setup_fakeNodes :: "node list \<Rightarrow> node list \<times> event list \<times> err option" where
  "setup_fakeNodes [] = ([], [], None)"
| "setup_fakeNodes (n # ns) =
     (let cleaned = n\<lparr>internal_owner := None\<rparr>
      in case createNode cleaned of
           Inl e \<Rightarrow> (cleaned # ns, [CreateNode cleaned], Some e)
         | Inr owned \<Rightarrow>
             (case setup_fakeNodes ns of
                (ns', evs, thrown) \<Rightarrow> (owned # ns', CreateNode cleaned # evs, thrown)))"

definition createTemporaryFakeNodes :: "world \<Rightarrow> world \<times> err option" where
  "createTemporaryFakeNodes w =
     (case setup_fakeNodes (fakeNodes w) of
        (ns, evs, thrown) \<Rightarrow>
          (let w1 = w\<lparr>fakeNodes := ns, host_log := host_log w @ evs\<rparr>
           in case thrown of
                Some e \<Rightarrow> (w1, Some e)
              | None \<Rightarrow>
                  (w1\<lparr>listeners := listeners w1 @ [next_closure w1],
                      next_closure := Suc (next_closure w1)\<rparr>, None)))"

text \<open>
  The handler \<open>k\<close>: \<^verbatim>\<open>deleteNode\<close> for every fake node, then \<^verbatim>\<open>emitter.off\<close> of itself.
\<close>

definition onSchemaUpdate :: "nat \<Rightarrow> world \<Rightarrow> world" where
  "onSchemaUpdate k w =
     w\<lparr>host_log := host_log w @ map DeleteNode (fakeNodes w),
       listeners := remove1 k (listeners w)\<rparr>"

text \<open>
  The host emits \<^verbatim>\<open>SET_SCHEMA\<close>: the emitter calls the handlers that are registered when the
  signal fires, in the order of their registration.
\<close>

definition emit_SET_SCHEMA :: "world \<Rightarrow> world" where
  "emit_SET_SCHEMA w = fold onSchemaUpdate (listeners w) w"

section \<open>The exported hooks\<close>

definition sourceNodes :: "world \<Rightarrow> host \<Rightarrow> world \<times> run" where
  "sourceNodes w h =
     (case createTemporaryFakeNodes w of
        (w1, Some e) \<Rightarrow> (w1, \<lparr>events = [], returned = (0, Rejected e)\<rparr>)
      | (w1, None) \<Rightarrow> (w1, createLiveGhostNodes h))"

definition onPreExtractQueries :: "world \<Rightarrow> world \<times> err option" where
  "onPreExtractQueries w = createTemporaryFakeNodes w"

section \<open>What a trace shows\<close>

text \<open>The nodes handed to \<^verbatim>\<open>createNode\<close>, the downloads asked for, the browse calls made.\<close>

fun created :: "trace \<Rightarrow> node list" where
  "created [] = []"
| "created ((t, CreateNode n) # tr) = n # created tr"
| "created (_ # tr) = created tr"

definition created_of :: "string \<Rightarrow> trace \<Rightarrow> node list" where
  "created_of ty tr = filter (\<lambda>n. internal_type n = ty) (created tr)"

fun downloads :: "trace \<Rightarrow> jsval list" where
  "downloads [] = []"
| "downloads ((t, CreateRemoteFileNode url parent) # tr) = url # downloads tr"
| "downloads (_ # tr) = downloads tr"

fun browse_calls :: "trace \<Rightarrow> resource list" where
  "browse_calls [] = []"
| "browse_calls ((t, Browse r) # tr) = r # browse_calls tr"
| "browse_calls (_ # tr) = browse_calls tr"

text \<open>The nodes the callbacks of the tags, authors and settings calls hand over.\<close>

definition tag_nodes :: "counted list promise \<Rightarrow> node list" where
  "tag_nodes p =
     (case assigned p of
        Some tags \<Rightarrow> map (\<lambda>tag. TagNode (tag\<lparr>postCount := count_posts tag\<rparr>)) tags
      | None \<Rightarrow> [])"

definition author_nodes :: "counted list promise \<Rightarrow> node list" where
  "author_nodes p =
     (case assigned p of
        Some authors \<Rightarrow>
          map (\<lambda>author. AuthorNode (author\<lparr>postCount := count_posts author\<rparr>)) authors
      | None \<Rightarrow> [])"

definition settings_nodes :: "settings promise \<Rightarrow> node list" where
  "settings_nodes p =
     (case assigned p of
        Some setting \<Rightarrow> [SettingsNode (setting\<lparr>settings_id := Num 1\<rparr>)]
      | None \<Rightarrow> [])"

text \<open>The reason with which a browse call rejects, and the time at which it settles.\<close>

definition rejection :: "'a promise \<Rightarrow> err option" where
  "rejection p = (case snd p of Rejected e \<Rightarrow> Some e | Fulfilled _ \<Rightarrow> None)"

fun browse_rejection :: "api \<Rightarrow> resource \<Rightarrow> err option" where
  "browse_rejection a Posts = rejection (browse_posts a)"
| "browse_rejection a Pages = rejection (browse_pages a)"
| "browse_rejection a Tags = rejection (browse_tags a)"
| "browse_rejection a Authors = rejection (browse_authors a)"
| "browse_rejection a Settings = rejection (browse_settings a)"

fun browse_time :: "api \<Rightarrow> resource \<Rightarrow> nat" where
  "browse_time a Posts = fst (browse_posts a)"
| "browse_time a Pages = fst (browse_pages a)"
| "browse_time a Tags = fst (browse_tags a)"
| "browse_time a Authors = fst (browse_authors a)"
| "browse_time a Settings = fst (browse_settings a)"

text \<open>The promise of the fetch for a resource, as the callbacks of this plugin leave it.\<close>

definition fetch_promise :: "api \<Rightarrow> resource \<Rightarrow> unit promise" where
  "fetch_promise a r =
     (browse_time a r, case browse_rejection a r of Some e \<Rightarrow> Rejected e | None \<Rightarrow> Fulfilled ())"

section \<open>Concrete runs\<close>

definition image_file :: node where
  "image_file =
     \<lparr>node_id = Str ''file-1'', internal_type = ''File'',
      internal_owner = Some ''gatsby-source-filesystem'', node_fields = [],
      node_localFile___NODE = Undefined, source_fields = []\<rparr>"

definition pictured :: ghost_record where
  "pictured =
     \<lparr>rec_id = Str ''r1'', rec_feature_image = Str ''https://cms/a.png'',
      rec_rest = [(''title'', Str ''A'')]\<rparr>"

definition plain :: ghost_record where
  "plain = \<lparr>rec_id = Str ''r2'', rec_feature_image = Null, rec_rest = [(''title'', Str ''B'')]\<rparr>"

definition a_tag :: counted where
  "a_tag = \<lparr>counted_id = Str ''t1'', count_posts = Num 2, postCount = Undefined, counted_rest = []\<rparr>"

definition cms_settings :: settings where
  "cms_settings = \<lparr>settings_id = Undefined, settings_rest = [(''title'', Str ''Site'')]\<rparr>"

text \<open>A CMS that answers every browse call after one tick.\<close>

definition cms :: "ghost_record list \<Rightarrow> ghost_record list \<Rightarrow> api" where
  "cms posts pages =
     \<lparr>browse_posts = (1, Fulfilled posts), browse_pages = (1, Fulfilled pages),
      browse_tags = (1, Fulfilled [a_tag]), browse_authors = (1, Fulfilled []),
      browse_settings = (1, Fulfilled cms_settings)\<rparr>"

text \<open>A host on which every download takes one tick and nothing fails.\<close>

definition good_host :: "api \<Rightarrow> host" where
  "good_host a =
     \<lparr>configure = Inr a, createRemoteFileNode = (\<lambda>url parent. (1, Inr image_file)),
      createNodeField_throws = (\<lambda>n name v. None)\<rparr>"

text \<open>The same host when every download fails, and when writing \<^verbatim>\<open>refId\<close> fails.\<close>

definition no_download :: "api \<Rightarrow> host" where
  "no_download a =
     (good_host a)\<lparr>createRemoteFileNode := (\<lambda>url parent. (1, Inl (HostError ''404'')))\<rparr>"

definition no_originalPath :: "api \<Rightarrow> host" where
  "no_originalPath a =
     (good_host a)\<lparr>createNodeField_throws :=
        (\<lambda>n name v. if name = ''originalPath'' then Some (HostError ''field'') else None)\<rparr>"

definition no_refId :: "api \<Rightarrow> host" where
  "no_refId a =
     (good_host a)\<lparr>createNodeField_throws :=
        (\<lambda>n name v. if name = ''refId'' then Some (HostError ''field'') else None)\<rparr>"

text \<open>The CMS when the browse call for posts rejects after two ticks.\<close>

definition posts_down :: api where
  "posts_down = (cms [] [])\<lparr>browse_posts := (2, Rejected (HostError ''503''))\<rparr>"

text \<open>Two placeholder nodes, as the module holds them before the first activation.\<close>

definition fake :: "string \<Rightarrow> node" where
  "fake ty =
     \<lparr>node_id = Str ty, internal_type = ty, internal_owner = None, node_fields = [],
      node_localFile___NODE = Undefined, source_fields = []\<rparr>"

definition fresh_world :: world where
  "fresh_world =
     \<lparr>fakeNodes = [fake ''GhostPost'', fake ''GhostTag''], listeners = [], next_closure = 0,
      host_log = []\<rparr>"

section \<open>The host's checks on the plugin's own nodes\<close>

lemma createNode_fresh:
  "internal_owner n = None \<Longrightarrow> createNode n = Inr (n\<lparr>internal_owner := Some plugin_name\<rparr>)"
  by (simp add: createNode_def)

lemma factory_owner [simp]:
  "internal_owner (record_node ty p) = None"
  "internal_owner (counted_node ty c) = None"
  "internal_owner (SettingsNode s) = None"
  by (simp_all add: record_node_def counted_node_def SettingsNode_def)

lemma forEach_createNode_fresh:
  "(\<And>n. n \<in> set ns \<Longrightarrow> internal_owner n = None) \<Longrightarrow>
     forEach_createNode ns = (map CreateNode ns, None)"
  by (induction ns) (simp_all add: createNode_fresh)

section \<open>The image side-loader\<close>

text \<open>
  C3 (as amended). Whatever fails, \<^verbatim>\<open>downloadImageAndCreateFileNode\<close> fulfils: the error is
  logged as a warning and never passed on. When the download fails the result is
  \<^verbatim>\<open>undefined\<close>. When writing \<^verbatim>\<open>originalPath\<close> fails the result is the downloaded file node
  without annotation, and when writing \<^verbatim>\<open>refId\<close> fails it is the file node carrying
  \<^verbatim>\<open>originalPath\<close> alone.
\<close>

theorem download_failure_is_recovered:
  assumes "createRemoteFileNode h (feature_image r) (post_id r) = (d, got)"
  shows "(\<exists>v. snd (downloadImageAndCreateFileNode h t r) = (t + d, Fulfilled v))
       \<and> (\<forall>e. got = Inl e \<longrightarrow>
            downloadImageAndCreateFileNode h t r =
              ([(t, CreateRemoteFileNode (feature_image r) (post_id r)), (t + d, Warn e)],
               (t + d, Fulfilled None)))
       \<and> (\<forall>f e. got = Inr f
              \<and> createNodeField_throws h f ''originalPath'' (feature_image r) = Some e \<longrightarrow>
            downloadImageAndCreateFileNode h t r =
              ([(t, CreateRemoteFileNode (feature_image r) (post_id r)),
                (t + d, CreateNodeField f ''originalPath'' (feature_image r)),
                (t + d, Warn e)],
               (t + d, Fulfilled (Some f))))
       \<and> (\<forall>f e. got = Inr f
              \<and> createNodeField_throws h f ''originalPath'' (feature_image r) = None
              \<and> createNodeField_throws h (with_field ''originalPath'' (feature_image r) f)
                    ''refId'' (post_id r) = Some e \<longrightarrow>
            downloadImageAndCreateFileNode h t r =
              ([(t, CreateRemoteFileNode (feature_image r) (post_id r)),
                (t + d, CreateNodeField f ''originalPath'' (feature_image r)),
                (t + d, CreateNodeField (with_field ''originalPath'' (feature_image r) f)
                          ''refId'' (post_id r)),
                (t + d, Warn e)],
               (t + d, Fulfilled (Some (with_field ''originalPath'' (feature_image r) f)))))"
proof -
  have "\<exists>v. snd (downloadImageAndCreateFileNode h t r) = (t + d, Fulfilled v)"
    using assms by (simp add: downloadImageAndCreateFileNode_def Let_def split: prod.splits)
  then show ?thesis
    using assms
    by (simp add: downloadImageAndCreateFileNode_def try_block_def createNodeField_def Let_def)
qed

text \<open>The three failures on one record: no download, no \<^verbatim>\<open>originalPath\<close>, no \<^verbatim>\<open>refId\<close>.\<close>

theorem download_failure_is_recovered_witness:
  "downloadImageAndCreateFileNode (no_download (cms [] [])) 0 (js_object pictured) =
     ([(0, CreateRemoteFileNode (Str ''https://cms/a.png'') (Str ''r1'')),
       (1, Warn (HostError ''404''))],
      (1, Fulfilled None))
   \<and> downloadImageAndCreateFileNode (no_originalPath (cms [] [])) 0 (js_object pictured) =
     ([(0, CreateRemoteFileNode (Str ''https://cms/a.png'') (Str ''r1'')),
       (1, CreateNodeField image_file ''originalPath'' (Str ''https://cms/a.png'')),
       (1, Warn (HostError ''field''))],
      (1, Fulfilled (Some image_file)))
   \<and> downloadImageAndCreateFileNode (no_refId (cms [] [])) 0 (js_object pictured) =
     ([(0, CreateRemoteFileNode (Str ''https://cms/a.png'') (Str ''r1'')),
       (1, CreateNodeField image_file ''originalPath'' (Str ''https://cms/a.png'')),
       (1, CreateNodeField (with_field ''originalPath'' (Str ''https://cms/a.png'') image_file)
             ''refId'' (Str ''r1'')),
       (1, Warn (HostError ''field''))],
      (1, Fulfilled (Some (with_field ''originalPath'' (Str ''https://cms/a.png'') image_file))))"
proof -
  have a: "createRemoteFileNode (no_download (cms [] [])) (feature_image (js_object pictured))
             (post_id (js_object pictured)) = (1, Inl (HostError ''404''))"
    by (simp add: no_download_def good_host_def)
  have b: "createRemoteFileNode (no_originalPath (cms [] [])) (feature_image (js_object pictured))
             (post_id (js_object pictured)) = (1, Inr image_file)"
    by (simp add: no_originalPath_def good_host_def)
  have c: "createRemoteFileNode (no_refId (cms [] [])) (feature_image (js_object pictured))
             (post_id (js_object pictured)) = (1, Inr image_file)"
    by (simp add: no_refId_def good_host_def)
  have b': "createNodeField_throws (no_originalPath (cms [] [])) image_file ''originalPath'' v
              = Some (HostError ''field'')" for v
    by (simp add: no_originalPath_def)
  have c': "createNodeField_throws (no_refId (cms [] [])) n ''originalPath'' v = None"
    "createNodeField_throws (no_refId (cms [] [])) n ''refId'' v = Some (HostError ''field'')"
    for n v
    by (simp_all add: no_refId_def)
  have p: "feature_image (js_object pictured) = Str ''https://cms/a.png''"
    "post_id (js_object pictured) = Str ''r1''"
    by (simp_all add: js_object_def pictured_def)
  show ?thesis
    using download_failure_is_recovered [OF a, of 0]
      download_failure_is_recovered [OF b, of 0]
      download_failure_is_recovered [OF c, of 0]
    by (simp add: b' c' p)
qed

text \<open>
  C3 as stated fails: on a host where writing \<^verbatim>\<open>refId\<close> throws, the function returns the
  file node with \<^verbatim>\<open>originalPath\<close> written and \<^verbatim>\<open>refId\<close> missing, not an absent result.
\<close>

theorem partly_annotated_image_returned:
  "snd (downloadImageAndCreateFileNode (no_refId (cms [] [])) 0 (js_object pictured)) =
     (1, Fulfilled (Some (image_file\<lparr>node_fields :=
                            [(''originalPath'', Str ''https://cms/a.png'')]\<rparr>)))"
  by code_simp

section \<open>Traces and the fetch promises\<close>

lemma created_append [simp]: "created (xs @ ys) = created xs @ created ys"
  by (induction xs rule: created.induct) simp_all

lemma downloads_append [simp]: "downloads (xs @ ys) = downloads xs @ downloads ys"
  by (induction xs rule: downloads.induct) simp_all

lemma browse_calls_append [simp]: "browse_calls (xs @ ys) = browse_calls xs @ browse_calls ys"
  by (induction xs rule: browse_calls.induct) simp_all

lemma created_of_append [simp]: "created_of ty (xs @ ys) = created_of ty xs @ created_of ty ys"
  by (simp add: created_of_def)

lemma observe_CreateNode [simp]:
  "created (map (Pair t \<circ> CreateNode) ns) = ns"
  "downloads (map (Pair t \<circ> CreateNode) ns) = []"
  "browse_calls (map (Pair t \<circ> CreateNode) ns) = []"
  by (induction ns) simp_all

lemma observe_Browse [simp]:
  "created (map (\<lambda>r. (t, Browse r)) rs) = []"
  "downloads (map (\<lambda>r. (t, Browse r)) rs) = []"
  "browse_calls (map (\<lambda>r. (t, Browse r)) rs) = rs"
  by (induction rs) simp_all

lemma fetchTags_callback_eq:
  "fetchTags_callback tags =
     (map CreateNode (map (\<lambda>tag. TagNode (tag\<lparr>postCount := count_posts tag\<rparr>)) tags), None)"
  unfolding fetchTags_callback_def
  by (rule forEach_createNode_fresh) (auto simp: TagNode_def)

lemma fetchAuthors_callback_eq:
  "fetchAuthors_callback authors =
     (map CreateNode (map (\<lambda>author. AuthorNode (author\<lparr>postCount := count_posts author\<rparr>)) authors), None)"
  unfolding fetchAuthors_callback_def
  by (rule forEach_createNode_fresh) (auto simp: AuthorNode_def)

lemma fetchSettings_callback_eq:
  "fetchSettings_callback s = (map CreateNode [SettingsNode (s\<lparr>settings_id := Num 1\<rparr>)], None)"
  by (simp add: fetchSettings_callback_def Let_def createNode_fresh)

lemma then_sync_settled:
  assumes "\<And>v. snd (callback v) = None"
  shows "snd (then_sync p callback) =
           (fst p, case rejection p of Some e \<Rightarrow> Rejected e | None \<Rightarrow> Fulfilled ())"
proof (cases p)
  case (Pair t s)
  show ?thesis
  proof (cases s)
    case (Fulfilled v)
    obtain evs where "callback v = (evs, None)"
      using assms [of v] by (cases "callback v") simp
    with Pair Fulfilled show ?thesis
      by (simp add: then_sync_def rejection_def)
  next
    case (Rejected e)
    with Pair show ?thesis
      by (simp add: then_sync_def rejection_def)
  qed
qed

lemma then_sync_observed:
  assumes "\<And>v. callback v = (map CreateNode (f v), None)"
  shows "created (fst (then_sync p callback)) = (case assigned p of Some v \<Rightarrow> f v | None \<Rightarrow> [])"
    and "downloads (fst (then_sync p callback)) = []"
    and "browse_calls (fst (then_sync p callback)) = []"
proof -
  obtain t s where p: "p = (t, s)" by (cases p)
  show "created (fst (then_sync p callback)) = (case assigned p of Some v \<Rightarrow> f v | None \<Rightarrow> [])"
    by (cases s) (simp_all add: p then_sync_def assigned_def assms)
  show "downloads (fst (then_sync p callback)) = []"
    by (cases s) (simp_all add: p then_sync_def assms)
  show "browse_calls (fst (then_sync p callback)) = []"
    by (cases s) (simp_all add: p then_sync_def assms)
qed

lemma fetches_promises: "snd (fetches a) = map (fetch_promise a) all_resources"
  by (simp add: fetches_def Let_def then_sync_settled fetchTags_callback_eq
      fetchAuthors_callback_eq fetchSettings_callback_eq all_resources_def fetch_promise_def)

lemma then_sync_nothing [simp]: "fst (then_sync p (\<lambda>v. ([], None))) = []"
  by (cases p; cases "snd p") (auto simp: then_sync_def)

lemma fetches_created:
  "created (fst (fetches a)) = tag_nodes (browse_tags a) @ author_nodes (browse_authors a) @ settings_nodes (browse_settings a)"
  by (simp add: fetches_def Let_def tag_nodes_def author_nodes_def settings_nodes_def
      then_sync_observed(1)[OF fetchTags_callback_eq] then_sync_observed(1)[OF fetchAuthors_callback_eq]
      then_sync_observed(1)[OF fetchSettings_callback_eq])

lemma fetches_downloads: "downloads (fst (fetches a)) = []"
  by (simp add: fetches_def Let_def 
      then_sync_observed(2)[OF fetchTags_callback_eq] then_sync_observed(2)[OF fetchAuthors_callback_eq]
      then_sync_observed(2)[OF fetchSettings_callback_eq])

lemma fetches_browse_calls: "browse_calls (fst (fetches a)) = all_resources"
  by (simp add: fetches_def Let_def 
      then_sync_observed(3)[OF fetchTags_callback_eq] then_sync_observed(3)[OF fetchAuthors_callback_eq]
      then_sync_observed(3)[OF fetchSettings_callback_eq])


lemma first_rejected_fetch:
  "browse_rejection a x = None \<Longrightarrow>
     first_rejected (fetch_promise a x # ps) = first_rejected ps"
  "browse_rejection a x = Some e \<Longrightarrow>
     first_rejected (fetch_promise a x # ps) =
       (case first_rejected ps of
          None \<Rightarrow> Some (browse_time a x, e)
        | Some (t', e') \<Rightarrow> if t' < browse_time a x then Some (t', e') else Some (browse_time a x, e))"
  by (simp_all add: fetch_promise_def)

lemma first_rejected_none:
  "(\<And>r. r \<in> set rs \<Longrightarrow> browse_rejection a r = None) \<Longrightarrow>
     first_rejected (map (fetch_promise a) rs) = None"
  by (induction rs) (simp_all add: first_rejected_fetch)

lemma first_rejected_some:
  "r \<in> set rs \<Longrightarrow> browse_rejection a r = Some e \<Longrightarrow>
     \<exists>r' e'. r' \<in> set rs \<and> browse_rejection a r' = Some e'
        \<and> first_rejected (map (fetch_promise a) rs) = Some (browse_time a r', e')
        \<and> (\<forall>r''\<in>set rs. browse_rejection a r'' \<noteq> None \<longrightarrow> browse_time a r' \<le> browse_time a r'')"
proof (induction rs arbitrary: r e)
  case Nil
  then show ?case by simp
next
  case (Cons x xs)
  show ?case
  proof (cases "\<exists>y\<in>set xs. browse_rejection a y \<noteq> None")
    case False
    then have none: "first_rejected (map (fetch_promise a) xs) = None"
      by (intro first_rejected_none) auto
    from False Cons.prems have x: "x = r" by auto
    with Cons.prems none False show ?thesis
      by (intro exI [of _ x] exI [of _ e]) (auto simp: first_rejected_fetch)
  next
    case True
    then obtain y ey where "y \<in> set xs" "browse_rejection a y = Some ey" by auto
    from Cons.IH [OF this] obtain r' e' where
      r': "r' \<in> set xs" "browse_rejection a r' = Some e'"
        "first_rejected (map (fetch_promise a) xs) = Some (browse_time a r', e')"
        "\<forall>r''\<in>set xs. browse_rejection a r'' \<noteq> None \<longrightarrow> browse_time a r' \<le> browse_time a r''"
      by blast
    show ?thesis
    proof (cases "browse_rejection a x")
      case None
      with r' show ?thesis
        by (intro exI [of _ r'] exI [of _ e']) (auto simp: first_rejected_fetch)
    next
      case (Some ex)
      show ?thesis
      proof (cases "browse_time a r' < browse_time a x")
        case True
        with Some r' show ?thesis
          by (intro exI [of _ r'] exI [of _ e']) (auto simp: first_rejected_fetch)
      next
        case False
        with Some r' show ?thesis
          by (intro exI [of _ x] exI [of _ ex]) (fastforce simp: first_rejected_fetch)
      qed
    qed
  qed
qed

lemma all_resources_complete [simp]: "r \<in> set all_resources"
  by (cases r) (simp_all add: all_resources_def)

lemma run_rejected:
  assumes "configure h = Inr a" and "browse_rejection a r = Some e"
  shows "\<exists>r' e'. browse_rejection a r' = Some e'
           \<and> (\<forall>r''. browse_rejection a r'' \<noteq> None \<longrightarrow> browse_time a r' \<le> browse_time a r'')
           \<and> createLiveGhostNodes h =
               \<lparr>events = fst (fetches a), returned = (browse_time a r', Rejected e')\<rparr>"
proof -
  from first_rejected_some [of r all_resources a e] assms(2) obtain r' e' where
    r': "browse_rejection a r' = Some e'"
      "first_rejected (map (fetch_promise a) all_resources) = Some (browse_time a r', e')"
      "\<forall>r''. browse_rejection a r'' \<noteq> None \<longrightarrow> browse_time a r' \<le> browse_time a r''"
    by auto
  have "createLiveGhostNodes h =
          \<lparr>events = fst (fetches a), returned = (browse_time a r', Rejected e')\<rparr>"
    by (simp add: createLiveGhostNodes_def assms(1) fetches_promises Promise_all_def r'(2))
  with r' show ?thesis by blast
qed


lemma created_concat: "created (concat xss) = concat (map created xss)"
  by (induction xss) simp_all

lemma try_block_created: "created (fst (try_block h t p)) = []"
  by (simp add: try_block_def Let_def split: sum.splits)

lemma download_created: "created (fst (downloadImageAndCreateFileNode h t p)) = []"
  using try_block_created [of h t p]
  by (auto simp: downloadImageAndCreateFileNode_def Let_def split: prod.splits option.splits)

lemma record_callback_created:
  "n \<in> set (created (fst (record_callback factory h t p))) \<Longrightarrow> \<exists>p'. n = factory p'"
  using download_created [of h t p]
  by (auto simp: record_callback_def return_createNode_def Let_def
      split: if_splits prod.splits settled.splits option.splits)

lemma create_records_created:
  assumes "n \<in> set (created (events (create_records h t posts pages)))"
  shows "internal_type n = ''GhostPost'' \<or> internal_type n = ''GhostPage''"
proof -
  from assms consider
    p where "p \<in> set posts" "n \<in> set (created (fst (record_callback PostNode h t p)))"
  | p where "p \<in> set pages" "n \<in> set (created (fst (record_callback PageNode h t p)))"
    by (auto simp: create_records_def Let_def created_concat)
  then show ?thesis
  proof cases
    case 1
    then show ?thesis
      using record_callback_created [of n PostNode h t p]
      by (auto simp: PostNode_def record_node_def)
  next
    case 2
    then show ?thesis
      using record_callback_created [of n PageNode h t p]
      by (auto simp: PageNode_def record_node_def)
  qed
qed

lemma run_events:
  assumes "configure h = Inr a"
  shows "\<exists>later. events (createLiveGhostNodes h) = fst (fetches a) @ later
           \<and> (\<forall>n\<in>set (created later).
                 internal_type n = ''GhostPost'' \<or> internal_type n = ''GhostPage'')"
proof (cases "Promise_all 0 (snd (fetches a))")
  case (Pair t s)
  show ?thesis
  proof (cases s)
    case (Rejected e)
    with Pair assms show ?thesis
      by (simp add: createLiveGhostNodes_def)
  next
    case (Fulfilled u)
    show ?thesis
    proof (cases "assigned (browse_posts a)")
      case None
      with Pair Fulfilled assms show ?thesis
        by (simp add: createLiveGhostNodes_def)
    next
      case posts: (Some posts)
      show ?thesis
      proof (cases "assigned (browse_pages a)")
        case None
        with Pair Fulfilled assms posts show ?thesis
          by (simp add: createLiveGhostNodes_def)
      next
        case (Some pages)
        with Pair Fulfilled assms posts show ?thesis
          using create_records_created [of _ h t "map js_object posts" "map js_object pages"]
          by (simp add: createLiveGhostNodes_def Let_def)
      qed
    qed
  qed
qed

lemma fetched_types:
  "n \<in> set (tag_nodes p) \<Longrightarrow> internal_type n = ''GhostTag''"
  "n \<in> set (author_nodes q) \<Longrightarrow> internal_type n = ''GhostAuthor''"
  "n \<in> set (settings_nodes r) \<Longrightarrow> internal_type n = ''GhostSettings''"
  by (auto simp: tag_nodes_def author_nodes_def settings_nodes_def TagNode_def AuthorNode_def
      counted_node_def SettingsNode_def split: option.splits)

lemma filter_none: "(\<And>x. x \<in> set xs \<Longrightarrow> \<not> P x) \<Longrightarrow> filter P xs = []"
  by (induction xs) simp_all

section \<open>A browse call rejects\<close>

text \<open>
  C5. When at least one of the five browse calls rejects, the promise that
  \<^verbatim>\<open>createLiveGhostNodes\<close> returns rejects, with the very error of a browse call that
  rejected, namely of the first one to reject, at the time that one rejects; when one
  call alone rejects, it is that call's error. No call is made twice: the run makes the
  five browse calls once each.
\<close>

theorem browse_rejection_propagates:
  assumes "configure h = Inr a" and "browse_rejection a r = Some e"
  shows "(\<exists>r' e'. browse_rejection a r' = Some e'
            \<and> returned (createLiveGhostNodes h) = (browse_time a r', Rejected e')
            \<and> (\<forall>r''. browse_rejection a r'' \<noteq> None \<longrightarrow> browse_time a r' \<le> browse_time a r''))
       \<and> ((\<forall>r''. r'' \<noteq> r \<longrightarrow> browse_rejection a r'' = None) \<longrightarrow>
            returned (createLiveGhostNodes h) = (browse_time a r, Rejected e))
       \<and> browse_calls (events (createLiveGhostNodes h)) = all_resources"
proof -
  from run_rejected [OF assms] obtain r' e' where
    r': "browse_rejection a r' = Some e'"
      "\<forall>r''. browse_rejection a r'' \<noteq> None \<longrightarrow> browse_time a r' \<le> browse_time a r''"
      "createLiveGhostNodes h =
         \<lparr>events = fst (fetches a), returned = (browse_time a r', Rejected e')\<rparr>"
    by blast
  have only: "r' = r \<and> e' = e" if "\<forall>r''. r'' \<noteq> r \<longrightarrow> browse_rejection a r'' = None"
    using that r'(1) assms(2) by (cases "r' = r") auto
  show ?thesis
    using r' only by (auto simp: fetches_browse_calls)
qed

text \<open>The CMS whose posts call rejects with 503 after two ticks.\<close>

theorem browse_rejection_propagates_witness:
  "returned (createLiveGhostNodes (good_host posts_down)) = (2, Rejected (HostError ''503''))
   \<and> browse_calls (events (createLiveGhostNodes (good_host posts_down))) =
       [Posts, Pages, Tags, Authors, Settings]"
proof -
  have c: "configure (good_host posts_down) = Inr posts_down"
    by (simp add: good_host_def)
  have r: "browse_rejection posts_down Posts = Some (HostError ''503'')"
    by (simp add: posts_down_def rejection_def)
  have others: "\<forall>r''. r'' \<noteq> Posts \<longrightarrow> browse_rejection posts_down r'' = None"
  proof (intro allI impI)
    fix r'' :: resource
    assume "r'' \<noteq> Posts"
    then show "browse_rejection posts_down r'' = None"
      by (cases r'') (simp_all add: posts_down_def cms_def rejection_def)
  qed
  have t: "fst (browse_posts posts_down) = 2"
    by (simp add: posts_down_def)
  show ?thesis
    using browse_rejection_propagates [OF c r] others
    by (simp add: t all_resources_def)
qed

text \<open>
  C4 (as amended). When a browse call rejects, the run rejects and creates no post node
  and no page node and asks for no download; the nodes it creates are the tag, author
  and settings nodes of those of the three calls that fulfilled.
\<close>

theorem no_record_nodes_after_rejection:
  assumes "configure h = Inr a" and "browse_rejection a r = Some e"
  shows "(\<exists>t e'. returned (createLiveGhostNodes h) = (t, Rejected e'))
       \<and> created (events (createLiveGhostNodes h)) =
           tag_nodes (browse_tags a) @ author_nodes (browse_authors a)
             @ settings_nodes (browse_settings a)
       \<and> created_of ''GhostPost'' (events (createLiveGhostNodes h)) = []
       \<and> created_of ''GhostPage'' (events (createLiveGhostNodes h)) = []
       \<and> downloads (events (createLiveGhostNodes h)) = []"
proof -
  from run_rejected [OF assms] obtain r' e' where
    run: "createLiveGhostNodes h =
            \<lparr>events = fst (fetches a), returned = (browse_time a r', Rejected e')\<rparr>"
    by blast
  have "filter (\<lambda>n. internal_type n = ty) (created (fst (fetches a))) = []"
    if "ty = ''GhostPost'' \<or> ty = ''GhostPage''" for ty
    using that by (intro filter_none) (auto simp: fetches_created dest: fetched_types)
  then show ?thesis
    by (simp add: run fetches_created fetches_downloads created_of_def)
qed

text \<open>The same CMS: the run rejects, having created a tag node and the settings node.\<close>

theorem no_record_nodes_after_rejection_witness:
  "returned (createLiveGhostNodes (good_host posts_down)) = (2, Rejected (HostError ''503''))
   \<and> created (events (createLiveGhostNodes (good_host posts_down))) =
       [TagNode (a_tag\<lparr>postCount := Num 2\<rparr>), SettingsNode (cms_settings\<lparr>settings_id := Num 1\<rparr>)]
   \<and> created_of ''GhostPost'' (events (createLiveGhostNodes (good_host posts_down))) = []
   \<and> created_of ''GhostPage'' (events (createLiveGhostNodes (good_host posts_down))) = []
   \<and> downloads (events (createLiveGhostNodes (good_host posts_down))) = []"
proof -
  have c: "configure (good_host posts_down) = Inr posts_down"
    by (simp add: good_host_def)
  have r: "browse_rejection posts_down Posts = Some (HostError ''503'')"
    by (simp add: posts_down_def rejection_def)
  have n: "tag_nodes (browse_tags posts_down) = [TagNode (a_tag\<lparr>postCount := Num 2\<rparr>)]"
    "author_nodes (browse_authors posts_down) = []"
    "settings_nodes (browse_settings posts_down) = [SettingsNode (cms_settings\<lparr>settings_id := Num 1\<rparr>)]"
    by (simp_all add: posts_down_def cms_def tag_nodes_def author_nodes_def settings_nodes_def
        assigned_def a_tag_def)
  have s: "returned (createLiveGhostNodes (good_host posts_down)) = (2, Rejected (HostError ''503''))"
    by code_simp
  show ?thesis
    using no_record_nodes_after_rejection [OF c r]
    by (simp add: n s)
qed

text \<open>
  C4 as stated fails: the posts call rejects, the run rejects, and yet a tag node and the
  settings node were handed to \<^verbatim>\<open>createNode\<close>, at the time their own calls fulfilled.
\<close>

theorem tag_node_created_despite_rejection:
  "returned (createLiveGhostNodes (good_host posts_down)) = (2, Rejected (HostError ''503''))
   \<and> events (createLiveGhostNodes (good_host posts_down)) =
       [(0, Browse Posts), (0, Browse Pages), (0, Browse Tags), (0, Browse Authors),
        (0, Browse Settings),
        (1, CreateNode (TagNode (a_tag\<lparr>postCount := Num 2\<rparr>))),
        (1, CreateNode (SettingsNode (cms_settings\<lparr>settings_id := Num 1\<rparr>)))]"
  by code_simp

section \<open>The settings node\<close>

text \<open>
  C7. A settings record that comes without an identifier gets \<^verbatim>\<open>id = 1\<close> before
  \<^verbatim>\<open>SettingsNode\<close> and \<^verbatim>\<open>createNode\<close> see it: when the settings call fulfils, \<^verbatim>\<open>fetchSettings\<close>
  hands over exactly one node, made from the record with identifier 1, whose own
  identifier is 1, and fulfils.
\<close>

theorem settings_without_id_get_1:
  assumes "settings_id setting = Undefined"
  shows "then_sync (t, Fulfilled setting) fetchSettings_callback =
           ([(t, CreateNode (SettingsNode (setting\<lparr>settings_id := Num 1\<rparr>)))], (t, Fulfilled ()))
       \<and> node_id (SettingsNode (setting\<lparr>settings_id := Num 1\<rparr>)) = Num 1"
  by (simp add: then_sync_def fetchSettings_callback_eq SettingsNode_def)

text \<open>The settings of the example CMS carry no identifier.\<close>

theorem settings_without_id_get_1_witness:
  "settings_id cms_settings = Undefined
   \<and> then_sync (1, Fulfilled cms_settings) fetchSettings_callback =
       ([(1, CreateNode (SettingsNode (cms_settings\<lparr>settings_id := Num 1\<rparr>)))], (1, Fulfilled ()))
   \<and> node_id (SettingsNode (cms_settings\<lparr>settings_id := Num 1\<rparr>)) = Num 1"
proof -
  have u: "settings_id cms_settings = Undefined"
    by (simp add: cms_settings_def)
  show ?thesis
    using settings_without_id_get_1 [OF u, of 1] u by simp
qed

text \<open>
  C10. Whatever record the settings call fulfils with, also one that has an identifier
  already, and whatever the other four calls do, the run creates exactly one node of
  type \<^verbatim>\<open>GhostSettings\<close>: the one made from the record with its identifier overwritten by
  1, whose identifier is 1.
\<close>

theorem settings_node_id_is_1:
  assumes "configure h = Inr a" and "browse_settings a = (t, Fulfilled setting)"
  shows "created_of ''GhostSettings'' (events (createLiveGhostNodes h)) =
           [SettingsNode (setting\<lparr>settings_id := Num 1\<rparr>)]
       \<and> node_id (SettingsNode (setting\<lparr>settings_id := Num 1\<rparr>)) = Num 1"
proof -
  from run_events [OF assms(1)] obtain later where
    later: "events (createLiveGhostNodes h) = fst (fetches a) @ later"
      "\<forall>n\<in>set (created later). internal_type n = ''GhostPost'' \<or> internal_type n = ''GhostPage''"
    by blast
  have 1: "filter (\<lambda>n. internal_type n = ''GhostSettings'') (created later) = []"
    using later(2) by (intro filter_none) auto
  have 2: "filter (\<lambda>n. internal_type n = ''GhostSettings'') (tag_nodes (browse_tags a)) = []"
    by (intro filter_none) (auto dest: fetched_types)
  have 3: "filter (\<lambda>n. internal_type n = ''GhostSettings'') (author_nodes (browse_authors a)) = []"
    by (intro filter_none) (auto dest: fetched_types)
  have 4: "settings_nodes (browse_settings a) = [SettingsNode (setting\<lparr>settings_id := Num 1\<rparr>)]"
    by (simp add: settings_nodes_def assigned_def assms(2))
  have "created_of ''GhostSettings'' (events (createLiveGhostNodes h)) =
          [SettingsNode (setting\<lparr>settings_id := Num 1\<rparr>)]"
    by (simp add: created_of_def later(1) fetches_created 1 2 3 4 SettingsNode_def)
  then show ?thesis
    by (simp add: SettingsNode_def)
qed


text \<open>A CMS whose settings record says \<^verbatim>\<open>id: 'abc'\<close>.\<close>

theorem settings_node_id_is_1_witness:
  "created_of ''GhostSettings''
      (events (createLiveGhostNodes (good_host (cms [] [])
         \<lparr>configure := Inr ((cms [] [])\<lparr>browse_settings :=
            (3, Fulfilled \<lparr>settings_id = Str ''abc'', settings_rest = []\<rparr>)\<rparr>)\<rparr>))) =
     [SettingsNode \<lparr>settings_id = Num 1, settings_rest = []\<rparr>]
   \<and> node_id (SettingsNode \<lparr>settings_id = Num 1, settings_rest = []\<rparr>) = Num 1"
proof -
  let ?a = "(cms [] [])\<lparr>browse_settings := (3, Fulfilled \<lparr>settings_id = Str ''abc'', settings_rest = []\<rparr>)\<rparr>"
  let ?h = "(good_host (cms [] []))\<lparr>configure := Inr ?a\<rparr>"
  have c: "configure ?h = Inr ?a" by simp
  have s: "browse_settings ?a = (3, Fulfilled \<lparr>settings_id = Str ''abc'', settings_rest = []\<rparr>)"
    by simp
  show ?thesis
    using settings_node_id_is_1 [OF c s] by simp
qed

section \<open>The placeholder nodes\<close>

lemma setup_fakeNodes_eq:
  "setup_fakeNodes ns =
     (map (\<lambda>n. n\<lparr>internal_owner := Some plugin_name\<rparr>) ns,
      map (\<lambda>n. CreateNode (n\<lparr>internal_owner := None\<rparr>)) ns, None)"
  by (induction ns) (simp_all add: createNode_def)

lemma createTemporaryFakeNodes_eq:
  "createTemporaryFakeNodes w =
     (w\<lparr>fakeNodes := map (\<lambda>n. n\<lparr>internal_owner := Some plugin_name\<rparr>) (fakeNodes w),
        host_log := host_log w @ map (\<lambda>n. CreateNode (n\<lparr>internal_owner := None\<rparr>)) (fakeNodes w),
        listeners := listeners w @ [next_closure w],
        next_closure := Suc (next_closure w)\<rparr>, None)"
  by (simp add: createTemporaryFakeNodes_def setup_fakeNodes_eq)

text \<open>
  C8. An activation never throws, whatever owners the fake nodes carry when it starts:
  not the first one, not a second one right after it, and not \<^verbatim>\<open>onPreExtractQueries\<close> after
  \<^verbatim>\<open>sourceNodes\<close>. Every node reaches \<^verbatim>\<open>createNode\<close> with its owner removed. The removal
  is needed: after an activation every fake node carries the owner the host wrote, and
  \<^verbatim>\<open>createNode\<close> would refuse each of them as it stands.
\<close>

theorem reactivation_never_throws:
  "snd (createTemporaryFakeNodes w) = None
   \<and> snd (createTemporaryFakeNodes (fst (createTemporaryFakeNodes w))) = None
   \<and> snd (onPreExtractQueries (fst (sourceNodes w h))) = None
   \<and> host_log (fst (createTemporaryFakeNodes w)) =
       host_log w @ map (\<lambda>n. CreateNode (n\<lparr>internal_owner := None\<rparr>)) (fakeNodes w)
   \<and> map internal_owner (fakeNodes (fst (createTemporaryFakeNodes w))) =
       map (\<lambda>n. Some plugin_name) (fakeNodes w)
   \<and> map createNode (fakeNodes (fst (createTemporaryFakeNodes w))) =
       map (\<lambda>n. Inl OwnerError) (fakeNodes w)"
  by (simp add: createTemporaryFakeNodes_eq onPreExtractQueries_def sourceNodes_def createNode_def)

text \<open>Two activations of a module with two fake nodes.\<close>

theorem reactivation_never_throws_witness:
  "createTemporaryFakeNodes fresh_world =
     (\<lparr>fakeNodes = [(fake ''GhostPost'')\<lparr>internal_owner := Some plugin_name\<rparr>,
                    (fake ''GhostTag'')\<lparr>internal_owner := Some plugin_name\<rparr>],
       listeners = [0], next_closure = 1,
       host_log = [CreateNode (fake ''GhostPost''), CreateNode (fake ''GhostTag'')]\<rparr>, None)
   \<and> snd (createTemporaryFakeNodes (fst (createTemporaryFakeNodes fresh_world))) = None
   \<and> map createNode (fakeNodes (fst (createTemporaryFakeNodes fresh_world))) =
       [Inl OwnerError, Inl OwnerError]"
proof -
  have "createTemporaryFakeNodes fresh_world =
     (\<lparr>fakeNodes = [(fake ''GhostPost'')\<lparr>internal_owner := Some plugin_name\<rparr>,
                    (fake ''GhostTag'')\<lparr>internal_owner := Some plugin_name\<rparr>],
       listeners = [0], next_closure = 1,
       host_log = [CreateNode (fake ''GhostPost''), CreateNode (fake ''GhostTag'')]\<rparr>, None)"
    by (simp add: createTemporaryFakeNodes_def fresh_world_def fake_def createNode_def)
  moreover have "fakeNodes fresh_world = [fake ''GhostPost'', fake ''GhostTag'']"
    by (simp add: fresh_world_def)
  ultimately show ?thesis
    using reactivation_never_throws [of fresh_world "good_host (cms [] [])"]
    by simp
qed

lemma fold_remove1_self: "fold remove1 xs (xs @ zs) = zs"
  by (induction xs) simp_all

lemma fold_onSchemaUpdate:
  "fold onSchemaUpdate ks w =
     w\<lparr>host_log := host_log w @ concat (replicate (length ks) (map DeleteNode (fakeNodes w))),
       listeners := fold remove1 ks (listeners w)\<rparr>"
proof (induction ks arbitrary: w)
  case Nil
  show ?case by simp
next
  case (Cons k ks)
  have "fold onSchemaUpdate (k # ks) w = fold onSchemaUpdate ks (onSchemaUpdate k w)"
    by simp
  also have "\<dots> = (onSchemaUpdate k w)
      \<lparr>host_log := host_log (onSchemaUpdate k w)
          @ concat (replicate (length ks) (map DeleteNode (fakeNodes (onSchemaUpdate k w)))),
       listeners := fold remove1 ks (listeners (onSchemaUpdate k w))\<rparr>"
    by (rule Cons.IH)
  also have "\<dots> = w
      \<lparr>host_log := host_log w
          @ concat (replicate (length (k # ks)) (map DeleteNode (fakeNodes w))),
       listeners := fold remove1 (k # ks) (listeners w)\<rparr>"
    by (simp add: onSchemaUpdate_def)
  finally show ?case .
qed

lemma emit_SET_SCHEMA_eq:
  "emit_SET_SCHEMA w =
     w\<lparr>host_log := host_log w @ concat (replicate (length (listeners w)) (map DeleteNode (fakeNodes w))),
       listeners := []\<rparr>"
  using fold_remove1_self [of "listeners w" "[]"]
  by (simp add: emit_SET_SCHEMA_def fold_onSchemaUpdate)

text \<open>
  C9. After an activation, the first \<^verbatim>\<open>SET_SCHEMA\<close> leaves no handler registered, and a
  second \<^verbatim>\<open>SET_SCHEMA\<close> changes nothing: no request is made of the host. The first signal
  asks \<^verbatim>\<open>deleteNode\<close> for every fake node, once for each handler that was registered
  (the new one and those of earlier activations that no signal has followed); when the
  activation's handler is the only one, each fake node is deleted exactly once.
\<close>

theorem schema_signal_retracts_once:
  "listeners (emit_SET_SCHEMA (fst (createTemporaryFakeNodes w))) = []
   \<and> emit_SET_SCHEMA (emit_SET_SCHEMA (fst (createTemporaryFakeNodes w))) =
       emit_SET_SCHEMA (fst (createTemporaryFakeNodes w))
   \<and> host_log (emit_SET_SCHEMA (fst (createTemporaryFakeNodes w))) =
       host_log (fst (createTemporaryFakeNodes w))
         @ concat (replicate (Suc (length (listeners w)))
             (map DeleteNode (fakeNodes (fst (createTemporaryFakeNodes w)))))
   \<and> (listeners w = [] \<longrightarrow>
       host_log (emit_SET_SCHEMA (fst (createTemporaryFakeNodes w))) =
         host_log (fst (createTemporaryFakeNodes w))
           @ map DeleteNode (fakeNodes (fst (createTemporaryFakeNodes w))))"
  by (simp add: emit_SET_SCHEMA_eq createTemporaryFakeNodes_eq)

text \<open>One activation of a fresh module, then the signal twice.\<close>

theorem schema_signal_retracts_once_witness:
  "listeners fresh_world = []
   \<and> listeners (emit_SET_SCHEMA (fst (createTemporaryFakeNodes fresh_world))) = []
   \<and> host_log (emit_SET_SCHEMA (fst (createTemporaryFakeNodes fresh_world))) =
       [CreateNode (fake ''GhostPost''), CreateNode (fake ''GhostTag''),
        DeleteNode ((fake ''GhostPost'')\<lparr>internal_owner := Some plugin_name\<rparr>),
        DeleteNode ((fake ''GhostTag'')\<lparr>internal_owner := Some plugin_name\<rparr>)]
   \<and> emit_SET_SCHEMA (emit_SET_SCHEMA (fst (createTemporaryFakeNodes fresh_world))) =
       emit_SET_SCHEMA (fst (createTemporaryFakeNodes fresh_world))"
proof -
  have l: "listeners fresh_world = []"
    by (simp add: fresh_world_def)
  have a: "host_log (fst (createTemporaryFakeNodes fresh_world)) =
             [CreateNode (fake ''GhostPost''), CreateNode (fake ''GhostTag'')]"
    "fakeNodes (fst (createTemporaryFakeNodes fresh_world)) =
       [(fake ''GhostPost'')\<lparr>internal_owner := Some plugin_name\<rparr>,
        (fake ''GhostTag'')\<lparr>internal_owner := Some plugin_name\<rparr>]"
    by (simp_all add: createTemporaryFakeNodes_def fresh_world_def fake_def createNode_def)
  show ?thesis
    using schema_signal_retracts_once [of fresh_world] l
    by (simp add: a)
qed

section \<open>Posts and pages\<close>

lemma record_callback_plain:
  assumes "\<not> truthy (feature_image p)"
  shows "record_callback (record_node ty) h t p =
           ([(t, CreateNode (record_node ty p))], (t, Fulfilled ()))"
  using assms by (simp add: record_callback_def return_createNode_def createNode_fresh)

lemma download_succeeds:
  assumes "createRemoteFileNode h (feature_image p) (post_id p) = (d, Inr f)"
    and "createNodeField_throws h f ''originalPath'' (feature_image p) = None"
    and "createNodeField_throws h (with_field ''originalPath'' (feature_image p) f)
           ''refId'' (post_id p) = None"
  shows "downloadImageAndCreateFileNode h t p =
           ([(t, CreateRemoteFileNode (feature_image p) (post_id p)),
             (t + d, CreateNodeField f ''originalPath'' (feature_image p)),
             (t + d, CreateNodeField (with_field ''originalPath'' (feature_image p) f)
                       ''refId'' (post_id p))],
            (t + d, Fulfilled (Some (with_field ''refId'' (post_id p)
                                      (with_field ''originalPath'' (feature_image p) f)))))"
  using assms
  by (simp add: downloadImageAndCreateFileNode_def try_block_def createNodeField_def Let_def)

lemma record_callback_pictured:
  assumes "truthy (feature_image p)"
    and "createRemoteFileNode h (feature_image p) (post_id p) = (d, Inr f)"
    and "createNodeField_throws h f ''originalPath'' (feature_image p) = None"
    and "createNodeField_throws h (with_field ''originalPath'' (feature_image p) f)
           ''refId'' (post_id p) = None"
    and "img = with_field ''refId'' (post_id p) (with_field ''originalPath'' (feature_image p) f)"
  shows "record_callback (record_node ty) h t p =
           ([(t, CreateRemoteFileNode (feature_image p) (post_id p)),
             (t + d, CreateNodeField f ''originalPath'' (feature_image p)),
             (t + d, CreateNodeField (with_field ''originalPath'' (feature_image p) f)
                       ''refId'' (post_id p)),
             (t + d, CreateNode (record_node ty
                        (p\<lparr>image := Some img, localFile___NODE := node_id img\<rparr>)))],
            (t + d, Fulfilled ()))"
  using assms(1,5) download_succeeds [OF assms(2,3,4), of t]
  by (simp add: record_callback_def return_createNode_def createNode_fresh)

lemma annotated:
  "node_id (with_field name v n) = node_id n"
  "map_of (node_fields (with_field name v n)) name = Some v"
  "name' \<noteq> name \<Longrightarrow>
     map_of (node_fields (with_field name v n)) name' = map_of (node_fields n) name'"
  by (simp_all add: with_field_def update_conv')

text \<open>
  C6. The callback of a post or page whose \<^verbatim>\<open>feature_image\<close> is not truthy asks for no
  download and creates one node, which has the record's identifier and no
  \<^verbatim>\<open>localFile___NODE\<close>. When \<^verbatim>\<open>feature_image\<close> is truthy and the side-load succeeds (the
  download gives a file node and both \<^verbatim>\<open>createNodeField\<close> calls go through), the callback
  makes exactly four requests: the download for the record's \<^verbatim>\<open>feature_image\<close> with the
  record's \<^verbatim>\<open>id\<close> as parent, \<^verbatim>\<open>createNodeField\<close> of \<^verbatim>\<open>originalPath\<close> = \<^verbatim>\<open>feature_image\<close> on the
  downloaded file node, \<^verbatim>\<open>createNodeField\<close> of \<^verbatim>\<open>refId\<close> = \<^verbatim>\<open>id\<close> on that node as the first call
  left it, and \<^verbatim>\<open>createNode\<close> of one node. The side-loader makes the first three and
  returns the image node they leave, which is the downloaded file node with
  \<^verbatim>\<open>originalPath\<close> and \<^verbatim>\<open>refId\<close> in its \<^verbatim>\<open>fields\<close>; the created node is made from the record
  with \<^verbatim>\<open>image\<close> set to that image node and has its identifier as \<^verbatim>\<open>localFile___NODE\<close>. By
  \<open>run_fulfilled\<close> below, the requests of a run whose browse calls all fulfil are those of
  the fetches followed by those of these callbacks.
\<close>

theorem image_link_matches_side_load:
  assumes "factory = PostNode \<or> factory = PageNode"
  shows "(\<not> truthy (rec_feature_image r) \<longrightarrow>
            record_callback factory h t (js_object r) =
              ([(t, CreateNode (factory (js_object r)))], (t, Fulfilled ()))
            \<and> node_id (factory (js_object r)) = rec_id r
            \<and> node_localFile___NODE (factory (js_object r)) = Undefined)
       \<and> (\<forall>d f img.
             truthy (rec_feature_image r)
             \<and> createRemoteFileNode h (rec_feature_image r) (rec_id r) = (d, Inr f)
             \<and> createNodeField_throws h f ''originalPath'' (rec_feature_image r) = None
             \<and> createNodeField_throws h (with_field ''originalPath'' (rec_feature_image r) f)
                   ''refId'' (rec_id r) = None
             \<and> img = with_field ''refId'' (rec_id r)
                       (with_field ''originalPath'' (rec_feature_image r) f) \<longrightarrow>
             downloadImageAndCreateFileNode h t (js_object r) =
               ([(t, CreateRemoteFileNode (rec_feature_image r) (rec_id r)),
                 (t + d, CreateNodeField f ''originalPath'' (rec_feature_image r)),
                 (t + d, CreateNodeField (with_field ''originalPath'' (rec_feature_image r) f)
                           ''refId'' (rec_id r))],
                (t + d, Fulfilled (Some img)))
             \<and> record_callback factory h t (js_object r) =
               ([(t, CreateRemoteFileNode (rec_feature_image r) (rec_id r)),
                 (t + d, CreateNodeField f ''originalPath'' (rec_feature_image r)),
                 (t + d, CreateNodeField (with_field ''originalPath'' (rec_feature_image r) f)
                           ''refId'' (rec_id r)),
                 (t + d, CreateNode (factory ((js_object r)\<lparr>image := Some img,
                                        localFile___NODE := node_id img\<rparr>)))],
                (t + d, Fulfilled ()))
             \<and> node_id (factory ((js_object r)\<lparr>image := Some img,
                                    localFile___NODE := node_id img\<rparr>)) = rec_id r
             \<and> node_localFile___NODE (factory ((js_object r)\<lparr>image := Some img,
                                    localFile___NODE := node_id img\<rparr>)) = node_id img
             \<and> node_id img = node_id f
             \<and> map_of (node_fields img) ''originalPath'' = Some (rec_feature_image r)
             \<and> map_of (node_fields img) ''refId'' = Some (rec_id r))"
proof -
  from assms obtain ty where ty: "factory = record_node ty"
    by (auto simp: PostNode_def PageNode_def)
  have p: "feature_image (js_object r) = rec_feature_image r" "post_id (js_object r) = rec_id r"
    "localFile___NODE (js_object r) = Undefined"
    by (simp_all add: js_object_def)
  have plain: "record_callback factory h t (js_object r) =
              ([(t, CreateNode (factory (js_object r)))], (t, Fulfilled ()))
            \<and> node_id (factory (js_object r)) = rec_id r
            \<and> node_localFile___NODE (factory (js_object r)) = Undefined"
    if "\<not> truthy (rec_feature_image r)"
    using that record_callback_plain [of "js_object r" ty h t]
    by (simp add: ty p) (simp add: record_node_def p)
  have pictured: "downloadImageAndCreateFileNode h t (js_object r) =
               ([(t, CreateRemoteFileNode (rec_feature_image r) (rec_id r)),
                 (t + d, CreateNodeField f ''originalPath'' (rec_feature_image r)),
                 (t + d, CreateNodeField (with_field ''originalPath'' (rec_feature_image r) f)
                           ''refId'' (rec_id r))],
                (t + d, Fulfilled (Some img)))
             \<and> record_callback factory h t (js_object r) =
               ([(t, CreateRemoteFileNode (rec_feature_image r) (rec_id r)),
                 (t + d, CreateNodeField f ''originalPath'' (rec_feature_image r)),
                 (t + d, CreateNodeField (with_field ''originalPath'' (rec_feature_image r) f)
                           ''refId'' (rec_id r)),
                 (t + d, CreateNode (factory ((js_object r)\<lparr>image := Some img,
                                        localFile___NODE := node_id img\<rparr>)))],
                (t + d, Fulfilled ()))
             \<and> node_id (factory ((js_object r)\<lparr>image := Some img,
                                    localFile___NODE := node_id img\<rparr>)) = rec_id r
             \<and> node_localFile___NODE (factory ((js_object r)\<lparr>image := Some img,
                                    localFile___NODE := node_id img\<rparr>)) = node_id img
             \<and> node_id img = node_id f
             \<and> map_of (node_fields img) ''originalPath'' = Some (rec_feature_image r)
             \<and> map_of (node_fields img) ''refId'' = Some (rec_id r)"
    if a: "truthy (rec_feature_image r)"
      "createRemoteFileNode h (rec_feature_image r) (rec_id r) = (d, Inr f)"
      "createNodeField_throws h f ''originalPath'' (rec_feature_image r) = None"
      "createNodeField_throws h (with_field ''originalPath'' (rec_feature_image r) f)
                   ''refId'' (rec_id r) = None"
      "img = with_field ''refId'' (rec_id r)
                       (with_field ''originalPath'' (rec_feature_image r) f)"
    for d f img
  proof -
    have 1: "downloadImageAndCreateFileNode h t (js_object r) =
           ([(t, CreateRemoteFileNode (rec_feature_image r) (rec_id r)),
             (t + d, CreateNodeField f ''originalPath'' (rec_feature_image r)),
             (t + d, CreateNodeField (with_field ''originalPath'' (rec_feature_image r) f)
                       ''refId'' (rec_id r))],
            (t + d, Fulfilled (Some img)))"
      using download_succeeds [of h "js_object r" d f t] a by (simp add: p)
    have 2: "record_callback factory h t (js_object r) =
           ([(t, CreateRemoteFileNode (rec_feature_image r) (rec_id r)),
             (t + d, CreateNodeField f ''originalPath'' (rec_feature_image r)),
             (t + d, CreateNodeField (with_field ''originalPath'' (rec_feature_image r) f)
                       ''refId'' (rec_id r)),
             (t + d, CreateNode (factory
                        ((js_object r)\<lparr>image := Some img, localFile___NODE := node_id img\<rparr>)))],
            (t + d, Fulfilled ()))"
      using record_callback_pictured [of "js_object r" h d f img ty t] a by (simp add: p ty)
    have 3: "map_of (node_fields img) ''originalPath'' = Some (rec_feature_image r)"
      unfolding a(5) by (simp add: annotated)
    show ?thesis
      by (simp add: 1 2 3) (simp add: a(5) annotated ty record_node_def p)
  qed
  from plain pictured show ?thesis by blast
qed


text \<open>A page without a feature image and a post with one, on a host where nothing fails.\<close>

theorem image_link_matches_side_load_witness:
  "record_callback PageNode (good_host (cms [] [])) 1 (js_object plain) =
     ([(1, CreateNode (PageNode (js_object plain)))], (1, Fulfilled ()))
   \<and> node_localFile___NODE (PageNode (js_object plain)) = Undefined
   \<and> record_callback PostNode (good_host (cms [] [])) 1 (js_object pictured) =
       ([(1, CreateRemoteFileNode (Str ''https://cms/a.png'') (Str ''r1'')),
         (2, CreateNodeField image_file ''originalPath'' (Str ''https://cms/a.png'')),
         (2, CreateNodeField (with_field ''originalPath'' (Str ''https://cms/a.png'') image_file)
               ''refId'' (Str ''r1'')),
         (2, CreateNode (PostNode ((js_object pictured)
            \<lparr>image := Some (with_field ''refId'' (Str ''r1'')
                              (with_field ''originalPath'' (Str ''https://cms/a.png'') image_file)),
             localFile___NODE := Str ''file-1''\<rparr>)))],
        (2, Fulfilled ()))
   \<and> downloadImageAndCreateFileNode (good_host (cms [] [])) 1 (js_object pictured) =
       ([(1, CreateRemoteFileNode (Str ''https://cms/a.png'') (Str ''r1'')),
         (2, CreateNodeField image_file ''originalPath'' (Str ''https://cms/a.png'')),
         (2, CreateNodeField (with_field ''originalPath'' (Str ''https://cms/a.png'') image_file)
               ''refId'' (Str ''r1''))],
        (2, Fulfilled (Some (with_field ''refId'' (Str ''r1'')
                              (with_field ''originalPath'' (Str ''https://cms/a.png'') image_file)))))
   \<and> node_localFile___NODE (PostNode ((js_object pictured)
          \<lparr>image := Some (with_field ''refId'' (Str ''r1'')
                            (with_field ''originalPath'' (Str ''https://cms/a.png'') image_file)),
           localFile___NODE := Str ''file-1''\<rparr>)) = Str ''file-1''
   \<and> map_of (node_fields (with_field ''refId'' (Str ''r1'')
                 (with_field ''originalPath'' (Str ''https://cms/a.png'') image_file)))
         ''originalPath'' = Some (Str ''https://cms/a.png'')
   \<and> map_of (node_fields (with_field ''refId'' (Str ''r1'')
                 (with_field ''originalPath'' (Str ''https://cms/a.png'') image_file)))
         ''refId'' = Some (Str ''r1'')"
proof -
  let ?h = "good_host (cms [] [])"
  let ?img = "with_field ''refId'' (Str ''r1'')
                (with_field ''originalPath'' (Str ''https://cms/a.png'') image_file)"
  have plain: "\<not> truthy (rec_feature_image plain)"
    by (simp add: plain_def)
  have pic: "truthy (rec_feature_image pictured)"
    "rec_feature_image pictured = Str ''https://cms/a.png''" "rec_id pictured = Str ''r1''"
    by (simp_all add: pictured_def)
  have host: "createRemoteFileNode ?h url parent = (1, Inr image_file)"
    "createNodeField_throws ?h n name v = None" for url parent n name v
    by (simp_all add: good_host_def)
  have id: "node_id ?img = Str ''file-1''" "node_id image_file = Str ''file-1''"
    by (simp_all add: with_field_def image_file_def)
  note a = image_link_matches_side_load [OF disjI2 [OF refl], of plain ?h 1, THEN conjunct1]
  note b = image_link_matches_side_load [OF disjI1 [OF refl], of pictured ?h 1, THEN conjunct2,
      rule_format, of 1 image_file ?img]
  show ?thesis
    using a b by (simp add: plain pic host id)
qed

lemma Promise_all_fetches:
  assumes "\<And>r. browse_rejection a r = None"
  shows "Promise_all 0 (snd (fetches a)) =
           (fold max (map (browse_time a) all_resources) 0, Fulfilled ())"
  using first_rejected_none [of all_resources a] assms
  by (simp add: Promise_all_def fetches_promises fetch_promise_def comp_def)

lemma run_fulfilled:
  assumes "configure h = Inr a" and "\<And>r. browse_rejection a r = None"
    and "assigned (browse_posts a) = Some posts" and "assigned (browse_pages a) = Some pages"
    and "t = fold max (map (browse_time a) all_resources) 0"
  shows "events (createLiveGhostNodes h) =
           fst (fetches a)
             @ concat (map (\<lambda>r. fst (record_callback PostNode h t (js_object r))) posts)
             @ concat (map (\<lambda>r. fst (record_callback PageNode h t (js_object r))) pages)"
    and "returned (createLiveGhostNodes h) =
           Promise_all t (map (\<lambda>r. snd (record_callback PostNode h t (js_object r))) posts)"
  using assms(1,3,4,5) Promise_all_fetches [OF assms(2)]
  by (simp_all add: createLiveGhostNodes_def create_records_def Let_def comp_def)

text \<open>
  C1, evaluated where it fails. One post with a feature image whose download fails: the
  side-loader returns \<^verbatim>\<open>undefined\<close>, reading \<^verbatim>\<open>post.image.id\<close> throws, the run rejects with
  that \<^verbatim>\<open>TypeError\<close>, and no post node is created. For one such page no page node is
  created either; the run fulfils, because nothing waits for the page's promise.
\<close>

theorem post_lost_when_download_fails:
  "returned (createLiveGhostNodes (no_download (cms [pictured] []))) = (2, Rejected TypeError)
   \<and> created_of ''GhostPost'' (events (createLiveGhostNodes (no_download (cms [pictured] [])))) = []
   \<and> returned (createLiveGhostNodes (no_download (cms [] [pictured]))) = (1, Fulfilled ())
   \<and> created_of ''GhostPage'' (events (createLiveGhostNodes (no_download (cms [] [pictured])))) = []"
  by code_simp

text \<open>
  C2, evaluated where it fails. No posts and one page with a feature image, on a host
  where nothing fails: the returned promise fulfils at time 1, when the browse calls
  have fulfilled, and the page's node is created at time 2, when its download is done.
\<close>

theorem page_node_created_after_settlement:
  "returned (createLiveGhostNodes (good_host (cms [] [pictured]))) = (1, Fulfilled ())
   \<and> created (filter (\<lambda>(t, e). 1 < t) (events (createLiveGhostNodes (good_host (cms [] [pictured]))))) =
       [PageNode ((js_object pictured)
          \<lparr>image := Some (with_field ''refId'' (Str ''r1'')
                            (with_field ''originalPath'' (Str ''https://cms/a.png'') image_file)),
           localFile___NODE := Str ''file-1''\<rparr>)]
   \<and> created (filter (\<lambda>(t, e). t \<le> 1) (events (createLiveGhostNodes (good_host (cms [] [pictured]))))) =
       [TagNode (a_tag\<lparr>postCount := Num 2\<rparr>), SettingsNode (cms_settings\<lparr>settings_id := Num 1\<rparr>)]"
  by code_simp

end
